theory Spec2Isabelle
  imports Main
begin

section \<open>Python strings\<close>

text \<open>
  A Python \<open>str\<close> is modelled as a \<^typ>\<open>string\<close>: a list of characters, each standing
  for the code point of the same number (code points below 256). The string methods the
  attribute classes call are written out below for that range.
\<close>

text \<open>
  \<open>str.isspace\<close> on one character: TAB, LF, VT, FF, CR, the four separators
  FS, GS, RS, US, the space, NEL and the no-break space.
\<close>

definition is_space :: "char \<Rightarrow> bool" where
  "is_space c =
     (let n = (of_char c :: nat)
      in (9 \<le> n \<and> n \<le> 13) \<or> (28 \<le> n \<and> n \<le> 32) \<or> n = 133 \<or> n = 160)"

text \<open>
  \<open>str.lower\<close> on one character: the letters \<open>A\<close> to \<open>Z\<close> and the upper-case
  letters of the Latin-1 block (all of 0xC0 to 0xDE but the multiplication sign 0xD7)
  move up by 32; every other character stays.
\<close>

definition lower_char :: "char \<Rightarrow> char" where
  "lower_char c =
     (let n = (of_char c :: nat)
      in if (65 \<le> n \<and> n \<le> 90) \<or> (192 \<le> n \<and> n \<le> 222 \<and> n \<noteq> 215)
         then char_of (n + 32) else c)"

definition lower :: "string \<Rightarrow> string" where
  "lower s = map lower_char s"

text \<open>\<open>s.strip()\<close>: leading and trailing whitespace removed.\<close>

definition strip :: "string \<Rightarrow> string" where
  "strip s = rev (dropWhile is_space (rev (dropWhile is_space s)))"

text \<open>
  \<open>s.split()\<close>: the maximal runs of non-whitespace characters, in order. The first
  argument is the token being read.
\<close>

fun split_from :: "string \<Rightarrow> string \<Rightarrow> string list" where
  "split_from cur [] = (if cur = [] then [] else [cur])"
| "split_from cur (c # cs) =
     (if is_space c then (if cur = [] then split_from [] cs else cur # split_from [] cs)
      else split_from (cur @ [c]) cs)"

definition split :: "string \<Rightarrow> string list" where
  "split s = split_from [] s"

text \<open>\<open>s.split(sep)\<close> for a separator of one character: never an empty list.\<close>

fun split_sep :: "char \<Rightarrow> string \<Rightarrow> string list" where
  "split_sep sep [] = [[]]"
| "split_sep sep (c # cs) =
     (if c = sep then [] # split_sep sep cs
      else (case split_sep sep cs of
              [] \<Rightarrow> [[c]]
            | p # ps \<Rightarrow> (c # p) # ps))"

text \<open>
  \<open>s.split(sep, 1)\<close> for a string that contains the separator: the part before its
  first occurrence and the part after it.
\<close>

definition split_once :: "char \<Rightarrow> string \<Rightarrow> string \<times> string" where
  "split_once sep s =
     (takeWhile (\<lambda>c. c \<noteq> sep) s, drop 1 (dropWhile (\<lambda>c. c \<noteq> sep) s))"

text \<open>\<open>sep.join(xs)\<close>.\<close>

fun join :: "string \<Rightarrow> string list \<Rightarrow> string" where
  "join sep [] = []"
| "join sep [x] = x"
| "join sep (x # y # zs) = x @ sep @ join sep (y # zs)"

section \<open>Errors\<close>

text \<open>
  The exceptions a constructor can raise. \<open>ValueError\<close> is the invalid-value error of
  the attribute layer, \<open>RuntimeError\<close> is raised when the registry is unavailable under
  strict validation, and \<open>TypeCheckError\<close> is what the \<open>@typechecked\<close> decorator raises
  for an argument outside the annotated type.
\<close>

datatype error = ValueError | RuntimeError | TypeCheckError

section \<open>Attributes\<close>

text \<open>An attribute object: its class and its \<open>value\<close> field.\<close>

datatype attribute =
    Lang string
  | Dir string
  | Charset string
  | Name string
  | Content string
  | Rel string
  | Href string
  | Type string
  | Sizes string

text \<open>\<open>Attribute.render\<close>, by class.\<close>

fun render :: "attribute \<Rightarrow> string" where
  "render (Lang v) = ''lang=\"'' @ v @ ''\"''"
| "render (Dir v) = ''dir=\"'' @ v @ ''\"''"
| "render (Charset v) = ''charset=\"'' @ v @ ''\"''"
| "render (Name v) = ''name=\"'' @ v @ ''\"''"
| "render (Content v) = ''content=\"'' @ v @ ''\"''"
| "render (Rel v) = ''rel=\"'' @ v @ ''\"''"
| "render (Href v) = ''href=\"'' @ v @ ''\"''"
| "render (Type v) = ''type=\"'' @ v @ ''\"''"
| "render (Sizes v) = ''sizes=\"'' @ v @ ''\"''"

subsection \<open>Lang\<close>

text \<open>
  The \<open>langcodes\<close> package is a parameter: \<open>langcodes value\<close> is \<open>Some tag\<close> when
  \<open>langcodes.Language.get(value)\<close> returns a language whose \<open>to_tag()\<close> is \<open>tag\<close>, and
  \<open>None\<close> when it raises \<open>LanguageTagError\<close>.
\<close>

definition Lang_init :: "(string \<Rightarrow> string option) \<Rightarrow> string \<Rightarrow> error + attribute" where
  "Lang_init langcodes value =
     (if value = [] then Inr (Lang value)
      else (case langcodes value of
              Some tag \<Rightarrow> Inr (Lang tag)
            | None \<Rightarrow> Inl ValueError))"

subsection \<open>Dir, Charset, Name, Content, Href\<close>

text \<open>
  The parameter of \<open>Dir.__init__\<close> is annotated \<open>Literal["ltr", "rtl", "auto"]\<close> and the
  class is \<open>@typechecked\<close>: any other argument raises before the body runs.
\<close>

definition Dir_init :: "string \<Rightarrow> error + attribute" where
  "Dir_init value =
     (if value \<in> {''ltr'', ''rtl'', ''auto''} then Inr (Dir value) else Inl TypeCheckError)"

definition Charset_init :: "string \<Rightarrow> error + attribute" where
  "Charset_init value =
     (if value \<in> {''utf-8'', ''latin-1''} then Inr (Charset value) else Inl TypeCheckError)"

definition Name_init :: "string \<Rightarrow> error + attribute" where
  "Name_init value = Inr (Name value)"

definition Content_init :: "string \<Rightarrow> error + attribute" where
  "Content_init value = Inr (Content value)"

definition Href_init :: "string \<Rightarrow> error + attribute" where
  "Href_init value = (if value = [] then Inl ValueError else Inr (Href value))"

subsection \<open>Rel\<close>

definition Rel_init :: "string \<Rightarrow> error + attribute" where
  "Rel_init value =
     (let v = strip value in
      if v = [] then Inl ValueError
      else
        let tokens = split v;
            lowered = map lower tokens
        in if card (set lowered) \<noteq> length lowered then Inl ValueError
           else Inr (Rel (join '' '' lowered)))"

subsection \<open>Sizes\<close>

text \<open>
  The pattern \<open>^[1-9][0-9]*x[1-9][0-9]*$\<close> under \<open>fullmatch\<close>. The digit classes are
  the ASCII ones. A run of digits is read greedily; as \<open>x\<close> is no digit, the run that
  \<open>[1-9][0-9]*\<close> matches before the \<open>x\<close> is the longest one.
\<close>

definition is_digit :: "char \<Rightarrow> bool" where
  "is_digit c = (c \<in> set ''0123456789'')"

definition is_digit19 :: "char \<Rightarrow> bool" where
  "is_digit19 c = (c \<in> set ''123456789'')"

definition positive_int :: "string \<Rightarrow> bool" where
  "positive_int s = (case s of [] \<Rightarrow> False | d # ds \<Rightarrow> is_digit19 d \<and> list_all is_digit ds)"

definition SIZE_RE_fullmatch :: "string \<Rightarrow> bool" where
  "SIZE_RE_fullmatch token =
     (case dropWhile is_digit token of
        [] \<Rightarrow> False
      | c # h \<Rightarrow> c = CHR ''x'' \<and> positive_int (takeWhile is_digit token) \<and> positive_int h)"

definition Sizes_init :: "string \<Rightarrow> error + attribute" where
  "Sizes_init value =
     (let v = strip value in
      if v = [] then Inl ValueError
      else if lower v = ''any'' then Inr (Sizes ''any'')
      else
        let tokens = split v
        in if \<exists>token \<in> set tokens. \<not> SIZE_RE_fullmatch token then Inl ValueError
           else Inr (Sizes (join '' '' tokens)))"

subsection \<open>Type\<close>

definition FALLBACK_KNOWN :: "string set" where
  "FALLBACK_KNOWN =
     {''image/png'', ''image/jpeg'', ''image/gif'', ''image/webp'', ''image/avif'',
      ''image/svg+xml'', ''image/x-icon'', ''text/css'', ''text/javascript'',
      ''application/javascript'', ''application/json'', ''application/wasm'',
      ''font/woff'', ''font/woff2''}"

text \<open>The pattern \<open>^[A-Za-z0-9!#$&^_.+-]+$\<close> under \<open>fullmatch\<close>.\<close>

definition token_char :: "char \<Rightarrow> bool" where
  "token_char c =
     (c \<in> set ''ABCDEFGHIJKLMNOPQRSTUVWXYZabcdefghijklmnopqrstuvwxyz0123456789!#$&^_.+-'')"

definition TOKEN_RE_fullmatch :: "string \<Rightarrow> bool" where
  "TOKEN_RE_fullmatch s = (s \<noteq> [] \<and> list_all token_char s)"

text \<open>\<open>_strip_ns\<close>: \<open>tag.split("}", 1)[-1]\<close>.\<close>

definition strip_ns :: "string \<Rightarrow> string" where
  "strip_ns tag = (if CHR ''}'' \<in> set tag then snd (split_once CHR ''}'' tag) else tag)"

text \<open>
  What the registry loader reads of an element of the parsed document: its tag, its
  \<open>id\<close> attribute when it has one, and the tag and text of each of its direct children.
\<close>

record xml_element =
  elem_tag :: string
  elem_id :: "string option"
  elem_children :: "(string \<times> string option) list"

text \<open>
  One attempt to fetch the registry: \<open>FetchError\<close> when \<open>urlopen\<close>, \<open>read\<close> or
  \<open>ET.fromstring\<close> raises, otherwise the elements of the document in the order of
  \<open>root.iter()\<close>.
\<close>

datatype fetch_outcome = FetchError | Document "xml_element list"

definition top_levels :: "string set" where
  "top_levels =
     {''application'', ''audio'', ''font'', ''image'', ''message'',
      ''model'', ''multipart'', ''text'', ''video''}"

text \<open>
  The loop over \<open>root.iter()\<close>, with the variables \<open>current_top\<close> and \<open>mime_types\<close>
  it updates.
\<close>

fun scan_elements :: "xml_element list \<Rightarrow> string option \<Rightarrow> string set \<Rightarrow> string set" where
  "scan_elements [] current_top mime_types = mime_types"
| "scan_elements (elem # rest) current_top mime_types =
     (let tag = strip_ns (elem_tag elem) in
      if tag = ''registry'' then
        (case elem_id elem of
           None \<Rightarrow> scan_elements rest current_top mime_types
         | Some reg_id \<Rightarrow>
             if reg_id \<in> top_levels then scan_elements rest (Some reg_id) mime_types
             else scan_elements rest current_top mime_types)
      else if tag = ''record'' \<and> current_top \<noteq> None then
        (case find (\<lambda>child. strip_ns (fst child) = ''name'') (elem_children elem) of
           None \<Rightarrow> scan_elements rest current_top mime_types
         | Some name_elem \<Rightarrow>
             let subtype = strip (case snd name_elem of None \<Rightarrow> [] | Some text \<Rightarrow> text) in
             if subtype \<noteq> [] then
               scan_elements rest current_top
                 (insert (lower (the current_top @ ''/'' @ subtype)) mime_types)
             else scan_elements rest current_top mime_types)
      else scan_elements rest current_top mime_types)"

text \<open>
  The class attributes \<open>_iana_mime_types\<close> and \<open>_iana_failed\<close>, and a counter of the
  calls of \<open>urlopen\<close> made so far.
\<close>

record Type_cls =
  iana_mime_types :: "string set option"
  iana_failed :: bool
  fetches :: nat

definition Type_cls_initial :: Type_cls where
  "Type_cls_initial = \<lparr>iana_mime_types = None, iana_failed = False, fetches = 0\<rparr>"

text \<open>
  \<open>_try_load_iana_mime_types\<close>. The network is the function \<open>net\<close>: \<open>net n\<close> is what the
  attempt after \<open>n\<close> earlier ones meets. The checks made before taking the lock are made
  again under it, as in the source.
\<close>

definition try_load_iana_mime_types ::
  "(nat \<Rightarrow> fetch_outcome) \<Rightarrow> Type_cls \<Rightarrow> string set option \<times> Type_cls" where
  "try_load_iana_mime_types net cls =
     (if iana_mime_types cls \<noteq> None then (iana_mime_types cls, cls)
      else if iana_failed cls then (None, cls)
      else if iana_mime_types cls \<noteq> None then (iana_mime_types cls, cls)
      else if iana_failed cls then (None, cls)
      else
        let cls1 = cls\<lparr>fetches := fetches cls + 1\<rparr> in
        (case net (fetches cls) of
           FetchError \<Rightarrow> (None, cls1\<lparr>iana_failed := True\<rparr>)
         | Document elems \<Rightarrow>
             let mime_types = scan_elements elems None {} in
             if mime_types = {} then (None, cls1\<lparr>iana_failed := True\<rparr>)
             else (Some mime_types, cls1\<lparr>iana_mime_types := Some mime_types\<rparr>)))"

text \<open>
  \<open>Type.__init__\<close>, in two parts. The first is the syntactic part, up to the candidate
  \<open>type/subtype\<close>; it returns the candidate and the trimmed parameters.
\<close>

definition Type_candidate :: "string \<Rightarrow> error + (string \<times> string list)" where
  "Type_candidate value =
     (let v = strip value in
      if v = [] then Inl ValueError
      else
        (case map strip (split_sep CHR '';'' v) of
           [] \<Rightarrow> Inl ValueError
         | main # params \<Rightarrow>
             if CHR ''/'' \<notin> set main then Inl ValueError
             else
               let t = strip (fst (split_once CHR ''/'' main));
                   sub = strip (snd (split_once CHR ''/'' main))
               in if t = [] \<or> sub = [] then Inl ValueError
                  else if \<not> TOKEN_RE_fullmatch t \<or> \<not> TOKEN_RE_fullmatch sub then Inl ValueError
                  else Inr (lower t @ ''/'' @ lower sub, params)))"

text \<open>
  The second part consults the registry and builds the normalized value. The class
  state is passed in and returned.
\<close>

definition Type_init ::
  "(nat \<Rightarrow> fetch_outcome) \<Rightarrow> Type_cls \<Rightarrow> string \<Rightarrow> bool \<Rightarrow> (error + attribute) \<times> Type_cls" where
  "Type_init net cls value strict_registry =
     (case Type_candidate value of
        Inl e \<Rightarrow> (Inl e, cls)
      | Inr (candidate, params) \<Rightarrow>
          let (registry, cls') = try_load_iana_mime_types net cls;
              normalized = (if params \<noteq> [] then candidate @ ''; '' @ join ''; '' params
                            else candidate)
          in (case registry of
                Some known \<Rightarrow>
                  if candidate \<notin> known then (Inl ValueError, cls')
                  else (Inr (Type normalized), cls')
              | None \<Rightarrow>
                  if strict_registry then (Inl RuntimeError, cls')
                  else if candidate \<notin> FALLBACK_KNOWN then (Inl ValueError, cls')
                  else (Inr (Type normalized), cls')))"

text \<open>A run of constructor calls, each a value and its \<open>strict_registry\<close> flag.\<close>

fun Type_init_all ::
  "(nat \<Rightarrow> fetch_outcome) \<Rightarrow> Type_cls \<Rightarrow> (string \<times> bool) list \<Rightarrow> (error + attribute) list \<times> Type_cls" where
  "Type_init_all net cls [] = ([], cls)"
| "Type_init_all net cls ((value, strict_registry) # calls) =
     (let (r, cls') = Type_init net cls value strict_registry;
          (rs, cls'') = Type_init_all net cls' calls
      in (r # rs, cls''))"

section \<open>Elements\<close>

text \<open>
  An element object: its class and its fields, in the order in which \<open>__init__\<close>
  assigns them.
\<close>

datatype element =
    DocType
  | HTML "element list" "attribute option" "attribute option"
  | Head "element list"
  | Body "element list"
  | Title string
  | MetaCharset attribute
  | MetaViewport attribute attribute
  | LinkIcon attribute attribute "attribute option" "attribute option"

text \<open>
  \<open>render_attributes\<close> walks the values of \<open>self.__dict__\<close>: \<open>Some a\<close> is a value that
  is an instance of \<open>Attribute\<close>, \<open>None\<close> any other value (\<open>None\<close>, or the list of
  children).
\<close>

definition render_attributes :: "attribute option list \<Rightarrow> string" where
  "render_attributes dict_values =
     (let rendered = concat (map (\<lambda>v. case v of None \<Rightarrow> [] | Some a \<Rightarrow> [render a]) dict_values)
      in if rendered = [] then [] else '' '' @ join '' '' rendered)"

fun render_element :: "element \<Rightarrow> string" where
  "render_element DocType = ''<!DOCTYPE html>''"
| "render_element (HTML children lang dir) =
     ''<html'' @ render_attributes [None, lang, dir] @ ''>''
       @ concat (map render_element children) @ ''</html>''"
| "render_element (Head children) =
     ''<head>'' @ concat (map render_element children) @ ''</head>''"
| "render_element (Body children) =
     ''<body>'' @ concat (map render_element children) @ ''</body>''"
| "render_element (Title v) = ''<title>'' @ v @ ''</title>''"
| "render_element (MetaCharset charset) = ''<meta'' @ render_attributes [Some charset] @ ''>''"
| "render_element (MetaViewport name content) =
     ''<meta'' @ render_attributes [Some name, Some content] @ ''>''"
| "render_element (LinkIcon rel href type sizes) =
     ''<link'' @ render_attributes [Some rel, Some href, type, sizes] @ ''>''"

text \<open>
  \<open>HTML.__init__\<close>: the arguments are checked against their annotations
  (\<open>attrs.Lang | None\<close>, \<open>attrs.Dir | None\<close>), then \<open>children or []\<close> is stored.
\<close>

definition HTML_init ::
  "attribute option \<Rightarrow> attribute option \<Rightarrow> element list option \<Rightarrow> error + element" where
  "HTML_init lang dir children =
     (if \<not> (case lang of None \<Rightarrow> True | Some (Lang _) \<Rightarrow> True | Some _ \<Rightarrow> False) then Inl TypeCheckError
      else if \<not> (case dir of None \<Rightarrow> True | Some (Dir _) \<Rightarrow> True | Some _ \<Rightarrow> False) then Inl TypeCheckError
      else Inr (HTML (case children of None \<Rightarrow> [] | Some cs \<Rightarrow> cs) lang dir))"

section \<open>Page\<close>

datatype page = Page "element list"

definition Page_init :: "element \<Rightarrow> error + page" where
  "Page_init html_element =
     (case html_element of
        HTML _ _ _ \<Rightarrow> Inr (Page [DocType, html_element])
      | _ \<Rightarrow> Inl TypeCheckError)"

fun Page_render :: "page \<Rightarrow> string" where
  "Page_render (Page children) = concat (map render_element children)"

section \<open>Properties of the string operations\<close>

lemma dropWhile_all_iff: "(\<forall>c \<in> set (dropWhile P s). P c) \<longleftrightarrow> (\<forall>c \<in> set s. P c)"
proof
  assume a: "\<forall>c \<in> set (dropWhile P s). P c"
  have "dropWhile P s = []"
  proof (rule ccontr)
    assume n: "dropWhile P s \<noteq> []"
    then have "\<not> P (hd (dropWhile P s))" by (rule hd_dropWhile)
    moreover have "hd (dropWhile P s) \<in> set (dropWhile P s)" using n by (rule hd_in_set)
    ultimately show False using a by blast
  qed
  then show "\<forall>c \<in> set s. P c" by (simp only: dropWhile_eq_Nil_conv)
next
  assume "\<forall>c \<in> set s. P c"
  then show "\<forall>c \<in> set (dropWhile P s). P c" by (blast dest: set_dropWhileD)
qed

lemma strip_Nil_iff: "strip s = [] \<longleftrightarrow> (\<forall>c \<in> set s. is_space c)"
  by (simp add: strip_def dropWhile_all_iff)

lemma split_from_spaces: "\<forall>c \<in> set ws. is_space c \<Longrightarrow> split_from cur ws = (if cur = [] then [] else [cur])"
proof (induction ws arbitrary: cur)
  case Nil then show ?case by simp
next
  case (Cons w ws)
  then have "split_from [] ws = []" by simp
  with Cons.prems show ?case by simp
qed

lemma split_from_append_spaces:
  "\<forall>c \<in> set ws. is_space c \<Longrightarrow> split_from cur (s @ ws) = split_from cur s"
  by (induction s arbitrary: cur) (simp_all add: split_from_spaces)

lemma split_from_dropWhile: "split_from [] (dropWhile is_space s) = split_from [] s"
  by (induction s) simp_all

lemma strip_decomp: "\<exists>ws. (\<forall>c \<in> set ws. is_space c) \<and> dropWhile is_space s = strip s @ ws"
proof -
  let ?d = "dropWhile is_space s"
  have "rev ?d = takeWhile is_space (rev ?d) @ dropWhile is_space (rev ?d)" by simp
  then have "?d = strip s @ rev (takeWhile is_space (rev ?d))"
    unfolding strip_def by (metis rev_append rev_rev_ident)
  moreover have "\<forall>c \<in> set (rev (takeWhile is_space (rev ?d))). is_space c"
    by (auto dest: set_takeWhileD)
  ultimately show ?thesis by blast
qed

lemma split_strip: "split (strip s) = split s"
proof -
  obtain ws where ws: "\<forall>c \<in> set ws. is_space c" "dropWhile is_space s = strip s @ ws"
    using strip_decomp by blast
  have "split s = split_from [] (dropWhile is_space s)"
    by (simp add: split_def split_from_dropWhile)
  also have "\<dots> = split_from [] (strip s)"
    using ws by (simp add: split_from_append_spaces)
  finally show ?thesis by (simp add: split_def)
qed

lemma split_from_tokens:
  "t \<in> set (split_from cur s) \<Longrightarrow> \<forall>c \<in> set cur. \<not> is_space c \<Longrightarrow> t \<noteq> [] \<and> (\<forall>c \<in> set t. \<not> is_space c)"
proof (induction s arbitrary: cur)
  case Nil
  then show ?case by (cases "cur = []") simp_all
next
  case (Cons c cs)
  show ?case
  proof (cases "is_space c")
    case True
    then have "t = cur \<and> cur \<noteq> [] \<or> t \<in> set (split_from [] cs)"
      using Cons.prems(1) by (cases "cur = []") simp_all
    then show ?thesis
    proof
      assume "t = cur \<and> cur \<noteq> []"
      then show ?thesis using Cons.prems(2) by simp
    next
      assume "t \<in> set (split_from [] cs)"
      then show ?thesis by (rule Cons.IH) simp
    qed
  next
    case False
    then have "t \<in> set (split_from (cur @ [c]) cs)" using Cons.prems(1) by simp
    then show ?thesis
      by (rule Cons.IH) (use False Cons.prems(2) in simp)
  qed
qed

lemma split_tokens: "t \<in> set (split s) \<Longrightarrow> t \<noteq> [] \<and> (\<forall>c \<in> set t. \<not> is_space c)"
  using split_from_tokens [of t "[]" s] by (simp add: split_def)

lemma card_set_neq_length: "card (set xs) \<noteq> length xs \<longleftrightarrow> \<not> distinct xs"
  using card_distinct distinct_card by metis

section \<open>Rel\<close>

text \<open>
  The constructor of \<open>Rel\<close> as one case distinction on the raw value: stripping the
  value first changes neither the emptiness test nor the tokens.
\<close>

lemma Rel_init_eq:
  "Rel_init value =
     (if (\<forall>c \<in> set value. is_space c) \<or> \<not> distinct (map lower (split value)) then Inl ValueError
      else Inr (Rel (join '' '' (map lower (split value)))))"
  by (simp add: Rel_init_def Let_def strip_Nil_iff split_strip card_set_neq_length del: distinct_map)


lemma Rel_init_ICON: "Rel_init ''ICON Icon'' = Inl ValueError"
  by code_simp

lemma Rel_init_icon_preload: "Rel_init ''icon preload'' = Inr (Rel ''icon preload'')"
  by code_simp

text \<open>
  C5: the constructor of \<open>Rel\<close> rejects the empty string; it fails with \<open>ValueError\<close>
  whenever two of the whitespace-separated tokens have the same lower-cased form; whenever
  it succeeds, the stored value is the lower-cased tokens, in their order, joined with
  single spaces, and they are pairwise different; it does succeed for every value with a
  non-whitespace character and no such duplicate. \<open>"ICON Icon"\<close> fails, and
  \<open>"icon preload"\<close> gives the attribute rendered as \<open>rel="icon preload"\<close>.
\<close>

theorem Rel_init_spec:
  "Rel_init [] = Inl ValueError
   \<and> (i < j \<and> j < length (split value) \<and> lower (split value ! i) = lower (split value ! j)
        \<longrightarrow> Rel_init value = Inl ValueError)
   \<and> (Rel_init value = Inr a
        \<longrightarrow> a = Rel (join '' '' (map lower (split value))) \<and> distinct (map lower (split value)))
   \<and> ((\<exists>c \<in> set value. \<not> is_space c) \<and> distinct (map lower (split value))
        \<longrightarrow> Rel_init value = Inr (Rel (join '' '' (map lower (split value)))))
   \<and> Rel_init ''ICON Icon'' = Inl ValueError
   \<and> Rel_init ''icon preload'' = Inr (Rel ''icon preload'')
   \<and> render (Rel ''icon preload'') = ''rel=\"icon preload\"''"
proof -
  have empty: "Rel_init [] = Inl ValueError"
    by (simp add: Rel_init_eq)
  have dup: "Rel_init value = Inl ValueError"
    if "i < j \<and> j < length (split value) \<and> lower (split value ! i) = lower (split value ! j)"
  proof -
    let ?ls = "map lower (split value)"
    have "i < length ?ls" "j < length ?ls" "i \<noteq> j" "?ls ! i = ?ls ! j"
      using that by simp_all
    then have "\<not> distinct ?ls"
      using nth_eq_iff_index_eq [of ?ls i j] by blast
    then show ?thesis by (simp add: Rel_init_eq del: distinct_map)
  qed
  have ok: "a = Rel (join '' '' (map lower (split value))) \<and> distinct (map lower (split value))"
    if "Rel_init value = Inr a"
    using that by (simp add: Rel_init_eq del: distinct_map split: if_splits)
  have accept: "Rel_init value = Inr (Rel (join '' '' (map lower (split value))))"
    if "(\<exists>c \<in> set value. \<not> is_space c) \<and> distinct (map lower (split value))"
    using that by (simp add: Rel_init_eq del: distinct_map)
  have r: "render (Rel ''icon preload'') = ''rel=\"icon preload\"''"
    by simp
  from empty dup ok accept Rel_init_ICON Rel_init_icon_preload r show ?thesis
    by blast
qed

theorem Rel_init_spec_witness:
  "(0::nat) < 1 \<and> 1 < length (split ''a A'') \<and> lower (split ''a A'' ! 0) = lower (split ''a A'' ! 1)
   \<and> Rel_init ''a A'' = Inl ValueError
   \<and> (\<exists>c \<in> set ''Icon  PreLoad''. \<not> is_space c) \<and> distinct (map lower (split ''Icon  PreLoad''))
   \<and> Rel_init ''Icon  PreLoad'' = Inr (Rel ''icon preload'')"
proof -
  have h1: "(0::nat) < 1 \<and> 1 < length (split ''a A'') \<and> lower (split ''a A'' ! 0) = lower (split ''a A'' ! 1)"
    by code_simp
  have h2: "(\<exists>c \<in> set ''Icon  PreLoad''. \<not> is_space c) \<and> distinct (map lower (split ''Icon  PreLoad''))"
    by code_simp
  have j: "join '' '' (map lower (split ''Icon  PreLoad'')) = ''icon preload''"
    by code_simp
  have c1: "Rel_init ''a A'' = Inl ValueError"
    using Rel_init_spec [of 0 1 "''a A''"] h1 by blast
  have "Rel_init ''Icon  PreLoad'' = Inr (Rel (join '' '' (map lower (split ''Icon  PreLoad''))))"
    using Rel_init_spec [of _ _ "''Icon  PreLoad''"] h2 by blast
  then have c2: "Rel_init ''Icon  PreLoad'' = Inr (Rel ''icon preload'')"
    by (simp only: j)
  from h1 h2 c1 c2 show ?thesis by blast
qed

section \<open>Dir\<close>

text \<open>
  C9: the constructor of \<open>Dir\<close> succeeds exactly for \<open>"ltr"\<close>, \<open>"rtl"\<close> and
  \<open>"auto"\<close>; every other value is rejected by the type check at the call, before an
  object exists; an accepted value is rendered unchanged as \<open>dir="<value>"\<close>.
\<close>

theorem Dir_init_spec:
  "(value \<in> {''ltr'', ''rtl'', ''auto''}
      \<longrightarrow> Dir_init value = Inr (Dir value) \<and> render (Dir value) = ''dir=\"'' @ value @ ''\"'')
   \<and> (value \<notin> {''ltr'', ''rtl'', ''auto''} \<longrightarrow> Dir_init value = Inl TypeCheckError)
   \<and> ((\<exists>a. Dir_init value = Inr a) \<longleftrightarrow> value \<in> {''ltr'', ''rtl'', ''auto''})"
  by (simp add: Dir_init_def)

theorem Dir_init_spec_witness:
  "''rtl'' \<in> {''ltr'', ''rtl'', ''auto''} \<and> Dir_init ''rtl'' = Inr (Dir ''rtl'')
   \<and> render (Dir ''rtl'') = ''dir=\"rtl\"''
   \<and> ''up'' \<notin> {''ltr'', ''rtl'', ''auto''} \<and> Dir_init ''up'' = Inl TypeCheckError"
proof -
  have h1: "''rtl'' \<in> {''ltr'', ''rtl'', ''auto''}" by simp
  have h2: "''up'' \<notin> {''ltr'', ''rtl'', ''auto''}" by simp
  have c1: "Dir_init ''rtl'' = Inr (Dir ''rtl'') \<and> render (Dir ''rtl'') = ''dir=\"'' @ ''rtl'' @ ''\"''"
    using Dir_init_spec [of "''rtl''"] h1 by blast
  have c2: "Dir_init ''up'' = Inl TypeCheckError"
    using Dir_init_spec [of "''up''"] h2 by blast
  from h1 h2 c1 c2 show ?thesis by simp
qed

section \<open>Lang\<close>




section \<open>Elements and pages\<close>

text \<open>
  C4: with a language-tag library that returns \<open>en\<close> for \<open>en\<close>, the \<open>HTML\<close> element built
  from \<open>Lang("en")\<close>, \<open>Dir("ltr")\<close> and an empty list of children renders
  \<open><html lang="en" dir="ltr"></html>\<close>, and the page built from it renders
  \<open><!DOCTYPE html><html lang="en" dir="ltr"></html>\<close>; the \<open>HTML\<close> element built with no
  attribute renders \<open><html></html>\<close>.
\<close>

theorem HTML_Page_render:
  "(langcodes ''en'' = Some ''en'' \<longrightarrow>
      Lang_init langcodes ''en'' = Inr (Lang ''en'')
      \<and> Dir_init ''ltr'' = Inr (Dir ''ltr'')
      \<and> HTML_init (Some (Lang ''en'')) (Some (Dir ''ltr'')) (Some [])
          = Inr (HTML [] (Some (Lang ''en'')) (Some (Dir ''ltr'')))
      \<and> render_element (HTML [] (Some (Lang ''en'')) (Some (Dir ''ltr'')))
          = ''<html lang=\"en\" dir=\"ltr\"></html>''
      \<and> Page_init (HTML [] (Some (Lang ''en'')) (Some (Dir ''ltr'')))
          = Inr (Page [DocType, HTML [] (Some (Lang ''en'')) (Some (Dir ''ltr''))])
      \<and> Page_render (Page [DocType, HTML [] (Some (Lang ''en'')) (Some (Dir ''ltr''))])
          = ''<!DOCTYPE html><html lang=\"en\" dir=\"ltr\"></html>'')
   \<and> HTML_init None None (Some []) = Inr (HTML [] None None)
   \<and> render_element (HTML [] None None) = ''<html></html>''"
  by (simp add: Lang_init_def Dir_init_def HTML_init_def Page_init_def render_attributes_def)

theorem HTML_Page_render_witness:
  "(\<lambda>v. if v = ''en'' then Some ''en'' else None) ''en'' = Some ''en''
   \<and> Lang_init (\<lambda>v. if v = ''en'' then Some ''en'' else None) ''en'' = Inr (Lang ''en'')
   \<and> render_element (HTML [] (Some (Lang ''en'')) (Some (Dir ''ltr'')))
       = ''<html lang=\"en\" dir=\"ltr\"></html>''
   \<and> Page_render (Page [DocType, HTML [] (Some (Lang ''en'')) (Some (Dir ''ltr''))])
       = ''<!DOCTYPE html><html lang=\"en\" dir=\"ltr\"></html>''"
proof -
  let ?lc = "\<lambda>v. if v = ''en'' then Some ''en'' else None"
  have h: "?lc ''en'' = Some ''en''" by simp
  show ?thesis
    using HTML_Page_render [of ?lc] h by blast
qed

section \<open>Sizes\<close>

lemma positive_int_iff:
  "positive_int s \<longleftrightarrow>
     s \<noteq> [] \<and> hd s \<in> set ''123456789'' \<and> (\<forall>c \<in> set (tl s). c \<in> set ''0123456789'')"
  by (cases s) (simp_all add: positive_int_def is_digit19_def is_digit_def list_all_iff)

lemma positive_int_digits: "positive_int s \<Longrightarrow> \<forall>c \<in> set s. is_digit c"
  by (cases s) (auto simp: positive_int_def is_digit19_def is_digit_def list_all_iff)

lemma x_no_digit: "\<not> is_digit CHR ''x''"
  by (simp add: is_digit_def)

text \<open>The recogniser accepts the language of the pattern.\<close>

lemma SIZE_RE_fullmatch_iff:
  "SIZE_RE_fullmatch token \<longleftrightarrow>
     (\<exists>w h. token = w @ ''x'' @ h \<and> positive_int w \<and> positive_int h)"
proof
  assume m: "SIZE_RE_fullmatch token"
  then obtain c h where d: "dropWhile is_digit token = c # h"
    by (cases "dropWhile is_digit token") (simp_all add: SIZE_RE_fullmatch_def)
  with m have "c = CHR ''x''" "positive_int (takeWhile is_digit token)" "positive_int h"
    by (simp_all add: SIZE_RE_fullmatch_def)
  moreover have "token = takeWhile is_digit token @ dropWhile is_digit token"
    by simp
  ultimately have "token = takeWhile is_digit token @ ''x'' @ h
      \<and> positive_int (takeWhile is_digit token) \<and> positive_int h"
    using d by simp
  then show "\<exists>w h. token = w @ ''x'' @ h \<and> positive_int w \<and> positive_int h"
    by blast
next
  assume "\<exists>w h. token = w @ ''x'' @ h \<and> positive_int w \<and> positive_int h"
  then obtain w h where t: "token = w @ CHR ''x'' # h" and w: "positive_int w" and h: "positive_int h"
    by auto
  have dw: "\<forall>c \<in> set w. is_digit c" using w by (rule positive_int_digits)
  have "takeWhile is_digit token = w"
    unfolding t using dw x_no_digit by (simp add: takeWhile_append2)
  moreover have "dropWhile is_digit token = CHR ''x'' # h"
    unfolding t using dw x_no_digit by (simp add: dropWhile_append2)
  ultimately show "SIZE_RE_fullmatch token"
    using w h by (simp add: SIZE_RE_fullmatch_def)
qed

lemma lower_digit19: "\<forall>d \<in> set ''123456789''. lower_char d = d"
  by code_simp

lemma SIZE_RE_not_any: "SIZE_RE_fullmatch token \<Longrightarrow> lower token \<noteq> ''any''"
proof
  assume m: "SIZE_RE_fullmatch token" and l: "lower token = ''any''"
  from m obtain w h where t: "token = w @ ''x'' @ h" and w: "positive_int w"
    unfolding SIZE_RE_fullmatch_iff by blast
  from w obtain d ds where wd: "w = d # ds" and d: "d \<in> set ''123456789''"
    by (cases w) (simp_all add: positive_int_def is_digit19_def)
  from d have "lower_char d = d" using lower_digit19 by blast
  moreover from l t wd have "lower_char d = CHR ''a''" by (simp add: lower_def)
  ultimately have "d = CHR ''a''" by simp
  with d show False by auto
qed

lemma Sizes_init_eq:
  "Sizes_init value =
     (if \<forall>c \<in> set value. is_space c then Inl ValueError
      else if lower (strip value) = ''any'' then Inr (Sizes ''any'')
      else if \<exists>token \<in> set (split value). \<not> SIZE_RE_fullmatch token then Inl ValueError
      else Inr (Sizes (join '' '' (split value))))"
  by (simp add: Sizes_init_def Let_def strip_Nil_iff split_strip)

lemma Sizes_init_examples:
  "Sizes_init ''32x32 64x64'' = Inr (Sizes ''32x32 64x64'')"
  "Sizes_init ''0x10'' = Inl ValueError"
  "Sizes_init ''32X32'' = Inl ValueError"
  "Sizes_init ''32x'' = Inl ValueError"
  "Sizes_init ''any'' = Inr (Sizes ''any'')"
  "Sizes_init ''ANY'' = Inr (Sizes ''any'')"
  by code_simp+

text \<open>
  C6: the constructor of \<open>Sizes\<close> rejects the empty string; a value whose stripped,
  lower-cased form is \<open>any\<close> gives the value \<open>any\<close>; otherwise one token that does not
  match the pattern makes the constructor fail with \<open>ValueError\<close> (so does a token
  \<open>any\<close> in any case beside other text), and a value whose tokens all match is stored
  as the tokens joined with single spaces. The pattern matches exactly the strings
  \<open>w\<close>\<open>x\<close>\<open>h\<close> where \<open>w\<close> and \<open>h\<close> are non-empty runs of the digits \<open>0\<close> to \<open>9\<close> that
  do not start with \<open>0\<close>. \<open>"32x32 64x64"\<close> renders unchanged; \<open>"0x10"\<close>, \<open>"32X32"\<close>
  and \<open>"32x"\<close> fail; \<open>"any"\<close> and \<open>"ANY"\<close> render \<open>sizes="any"\<close>.
\<close>

theorem Sizes_init_spec:
  "Sizes_init [] = Inl ValueError
   \<and> (lower (strip value) = ''any'' \<longrightarrow> Sizes_init value = Inr (Sizes ''any''))
   \<and> (lower (strip value) \<noteq> ''any'' \<and> token \<in> set (split value) \<and> \<not> SIZE_RE_fullmatch token
        \<longrightarrow> Sizes_init value = Inl ValueError)
   \<and> (lower (strip value) \<noteq> ''any'' \<and> token \<in> set (split value) \<and> lower token = ''any''
        \<longrightarrow> Sizes_init value = Inl ValueError)
   \<and> (lower (strip value) \<noteq> ''any'' \<and> (\<exists>c \<in> set value. \<not> is_space c)
        \<and> (\<forall>token \<in> set (split value). SIZE_RE_fullmatch token)
        \<longrightarrow> Sizes_init value = Inr (Sizes (join '' '' (split value))))
   \<and> (SIZE_RE_fullmatch token \<longleftrightarrow>
        (\<exists>w h. token = w @ ''x'' @ h \<and> positive_int w \<and> positive_int h))
   \<and> (positive_int s \<longleftrightarrow>
        s \<noteq> [] \<and> hd s \<in> set ''123456789'' \<and> (\<forall>c \<in> set (tl s). c \<in> set ''0123456789''))
   \<and> Sizes_init ''32x32 64x64'' = Inr (Sizes ''32x32 64x64'')
   \<and> render (Sizes ''32x32 64x64'') = ''sizes=\"32x32 64x64\"''
   \<and> Sizes_init ''0x10'' = Inl ValueError
   \<and> Sizes_init ''32X32'' = Inl ValueError
   \<and> Sizes_init ''32x'' = Inl ValueError
   \<and> Sizes_init ''any'' = Inr (Sizes ''any'')
   \<and> Sizes_init ''ANY'' = Inr (Sizes ''any'')
   \<and> render (Sizes ''any'') = ''sizes=\"any\"''"
proof -
  have empty: "Sizes_init [] = Inl ValueError"
    by (simp add: Sizes_init_eq)
  have any: "Sizes_init value = Inr (Sizes ''any'')" if "lower (strip value) = ''any''"
  proof -
    from that have "strip value \<noteq> []" by (auto simp: lower_def)
    then show ?thesis using that by (simp add: Sizes_init_eq strip_Nil_iff)
  qed
  have bad: "Sizes_init value = Inl ValueError"
    if "lower (strip value) \<noteq> ''any'' \<and> token \<in> set (split value) \<and> \<not> SIZE_RE_fullmatch token"
    using that by (auto simp: Sizes_init_eq)
  have bad_any: "Sizes_init value = Inl ValueError"
    if "lower (strip value) \<noteq> ''any'' \<and> token \<in> set (split value) \<and> lower token = ''any''"
  proof -
    from that have "\<not> SIZE_RE_fullmatch token" using SIZE_RE_not_any by blast
    with that show ?thesis using bad by blast
  qed
  have good: "Sizes_init value = Inr (Sizes (join '' '' (split value)))"
    if "lower (strip value) \<noteq> ''any'' \<and> (\<exists>c \<in> set value. \<not> is_space c)
        \<and> (\<forall>token \<in> set (split value). SIZE_RE_fullmatch token)"
    using that by (auto simp: Sizes_init_eq)
  have r1: "render (Sizes ''32x32 64x64'') = ''sizes=\"32x32 64x64\"''" by simp
  have r2: "render (Sizes ''any'') = ''sizes=\"any\"''" by simp
  show ?thesis
    using empty any bad bad_any good SIZE_RE_fullmatch_iff [of token] positive_int_iff [of s]
      Sizes_init_examples r1 r2
    by blast
qed

theorem Sizes_init_spec_witness:
  "lower (strip '' Any '') = ''any'' \<and> Sizes_init '' Any '' = Inr (Sizes ''any'')
   \<and> lower (strip ''16x16 1x'') \<noteq> ''any'' \<and> ''1x'' \<in> set (split ''16x16 1x'')
   \<and> \<not> SIZE_RE_fullmatch ''1x'' \<and> Sizes_init ''16x16 1x'' = Inl ValueError
   \<and> lower (strip ''16x16 Any'') \<noteq> ''any'' \<and> ''Any'' \<in> set (split ''16x16 Any'')
   \<and> lower ''Any'' = ''any'' \<and> Sizes_init ''16x16 Any'' = Inl ValueError
   \<and> lower (strip ''16x16  180x180'') \<noteq> ''any'' \<and> (\<exists>c \<in> set ''16x16  180x180''. \<not> is_space c)
   \<and> \<not> (\<exists>token \<in> set (split ''16x16  180x180''). \<not> SIZE_RE_fullmatch token)
   \<and> Sizes_init ''16x16  180x180'' = Inr (Sizes ''16x16 180x180'')"
proof -
  have h1: "lower (strip '' Any '') = ''any''" by code_simp
  have h2: "lower (strip ''16x16 1x'') \<noteq> ''any'' \<and> ''1x'' \<in> set (split ''16x16 1x'')
      \<and> \<not> SIZE_RE_fullmatch ''1x''" by code_simp
  have h3: "lower (strip ''16x16 Any'') \<noteq> ''any'' \<and> ''Any'' \<in> set (split ''16x16 Any'')
      \<and> lower ''Any'' = ''any''" by code_simp
  have h4: "lower (strip ''16x16  180x180'') \<noteq> ''any'' \<and> (\<exists>c \<in> set ''16x16  180x180''. \<not> is_space c)
      \<and> \<not> (\<exists>token \<in> set (split ''16x16  180x180''). \<not> SIZE_RE_fullmatch token)" by code_simp
  have j: "join '' '' (split ''16x16  180x180'') = ''16x16 180x180''" by code_simp
  have c1: "Sizes_init '' Any '' = Inr (Sizes ''any'')"
    using Sizes_init_spec [of "'' Any ''"] h1 by blast
  have c2: "Sizes_init ''16x16 1x'' = Inl ValueError"
    using Sizes_init_spec [of "''16x16 1x''" "''1x''"] h2 by blast
  have c3: "Sizes_init ''16x16 Any'' = Inl ValueError"
    using Sizes_init_spec [of "''16x16 Any''" "''Any''"] h3 by blast
  have "Sizes_init ''16x16  180x180'' = Inr (Sizes (join '' '' (split ''16x16  180x180'')))"
    using Sizes_init_spec [of "''16x16  180x180''"] h4 by blast
  then have c4: "Sizes_init ''16x16  180x180'' = Inr (Sizes ''16x16 180x180'')"
    by (simp only: j)
  from h1 h2 h3 h4 c1 c2 c3 c4 show ?thesis by blast
qed

section \<open>Type\<close>

subsection \<open>The syntactic part\<close>

lemma Type_candidate_spaces:
  "\<forall>c \<in> set value. is_space c \<Longrightarrow> Type_candidate value = Inl ValueError"
  by (simp add: Type_candidate_def strip_Nil_iff)

lemma Type_candidate_error: "Type_candidate value = Inl e \<Longrightarrow> e = ValueError"
  by (auto simp: Type_candidate_def Let_def split: if_splits list.splits)

lemma Type_candidate_Inr_iff:
  "Type_candidate value = Inr (candidate, params) \<longleftrightarrow>
     (\<exists>main t sub.
        strip value \<noteq> []
        \<and> map strip (split_sep CHR '';'' (strip value)) = main # params
        \<and> CHR ''/'' \<in> set main
        \<and> t = strip (fst (split_once CHR ''/'' main))
        \<and> sub = strip (snd (split_once CHR ''/'' main))
        \<and> t \<noteq> [] \<and> sub \<noteq> []
        \<and> TOKEN_RE_fullmatch t \<and> TOKEN_RE_fullmatch sub
        \<and> candidate = lower t @ ''/'' @ lower sub)"
  by (cases "map strip (split_sep CHR '';'' (strip value))")
    (auto simp: Type_candidate_def Let_def)

lemma Type_candidate_examples:
  "Type_candidate ''image/png'' = Inr (''image/png'', [])"
  "Type_candidate ''image'' = Inl ValueError"
  "Type_candidate ''image/zzzz-not-a-real-type'' = Inr (''image/zzzz-not-a-real-type'', [])"
  "Type_candidate ''image/png;'' = Inr (''image/png'', [[]])"
  by code_simp+

lemma FALLBACK_KNOWN_examples:
  "''image/png'' \<in> FALLBACK_KNOWN"
  "''image/zzzz-not-a-real-type'' \<notin> FALLBACK_KNOWN"
  by (simp_all add: FALLBACK_KNOWN_def)

subsection \<open>The registry\<close>

lemma try_load_settled:
  "iana_mime_types cls \<noteq> None \<or> iana_failed cls \<Longrightarrow>
     try_load_iana_mime_types net cls = (iana_mime_types cls, cls)"
  by (auto simp: try_load_iana_mime_types_def)

lemma try_load_fetch:
  "iana_mime_types cls = None \<Longrightarrow> \<not> iana_failed cls \<Longrightarrow>
     try_load_iana_mime_types net cls =
       (case net (fetches cls) of
          FetchError \<Rightarrow> (None, cls\<lparr>fetches := fetches cls + 1, iana_failed := True\<rparr>)
        | Document elems \<Rightarrow>
            if scan_elements elems None {} = {}
            then (None, cls\<lparr>fetches := fetches cls + 1, iana_failed := True\<rparr>)
            else (Some (scan_elements elems None {}),
                  cls\<lparr>fetches := fetches cls + 1,
                      iana_mime_types := Some (scan_elements elems None {})\<rparr>))"
  by (simp add: try_load_iana_mime_types_def Let_def split: fetch_outcome.splits)

lemma try_load_after:
  "iana_mime_types (snd (try_load_iana_mime_types net cls)) \<noteq> None
     \<or> iana_failed (snd (try_load_iana_mime_types net cls))"
proof (cases "iana_mime_types cls \<noteq> None \<or> iana_failed cls")
  case True
  then show ?thesis by (simp add: try_load_settled)
next
  case False
  then show ?thesis
    by (simp add: try_load_fetch split: fetch_outcome.splits)
qed

lemma try_load_fetches:
  "fetches (snd (try_load_iana_mime_types net cls)) =
     (if iana_mime_types cls \<noteq> None \<or> iana_failed cls then fetches cls else fetches cls + 1)"
proof (cases "iana_mime_types cls \<noteq> None \<or> iana_failed cls")
  case True
  then show ?thesis by (simp add: try_load_settled)
next
  case False
  then show ?thesis
    by (simp add: try_load_fetch split: fetch_outcome.splits)
qed

subsection \<open>The constructor\<close>

lemma Type_init_syntax_error:
  "Type_candidate value = Inl e \<Longrightarrow> Type_init net cls value strict = (Inl ValueError, cls)"
  using Type_candidate_error [of "value" e] by (simp add: Type_init_def)

lemma Type_init_candidate:
  "Type_candidate value = Inr (candidate, params) \<Longrightarrow>
   Type_init net cls value strict =
     (case fst (try_load_iana_mime_types net cls) of
        Some known \<Rightarrow>
          if candidate \<notin> known then Inl ValueError
          else Inr (Type (if params \<noteq> [] then candidate @ ''; '' @ join ''; '' params else candidate))
      | None \<Rightarrow>
          if strict then Inl RuntimeError
          else if candidate \<notin> FALLBACK_KNOWN then Inl ValueError
          else Inr (Type (if params \<noteq> [] then candidate @ ''; '' @ join ''; '' params else candidate)),
      snd (try_load_iana_mime_types net cls))"
  by (simp add: Type_init_def Let_def split: prod.splits option.splits)

lemma Type_init_state:
  "snd (Type_init net cls value strict) = cls
     \<or> snd (Type_init net cls value strict) = snd (try_load_iana_mime_types net cls)"
proof (cases "Type_candidate value")
  case (Inl e)
  then show ?thesis by (simp add: Type_init_syntax_error)
next
  case (Inr p)
  then show ?thesis by (cases p) (simp add: Type_init_candidate)
qed

lemma Type_init_settled:
  assumes "iana_mime_types cls \<noteq> None \<or> iana_failed cls"
  shows "snd (Type_init net cls value strict) = cls"
  using Type_init_state [of net cls "value" strict] try_load_settled [OF assms, of net]
  by auto

lemma Type_init_all_Cons:
  "snd (Type_init_all net cls ((v, s) # calls)) =
     snd (Type_init_all net (snd (Type_init net cls v s)) calls)"
  by (simp split: prod.splits)

lemma Type_init_all_settled:
  "iana_mime_types cls \<noteq> None \<or> iana_failed cls \<Longrightarrow> snd (Type_init_all net cls calls) = cls"
proof (induction calls)
  case Nil
  then show ?case by simp
next
  case (Cons call calls)
  obtain v s where call: "call = (v, s)" by (cases call)
  have "snd (Type_init net cls v s) = cls"
    using Cons.prems by (rule Type_init_settled)
  then show ?case
    using Cons.IH [OF Cons.prems] by (simp only: call Type_init_all_Cons)
qed

lemma Type_init_all_fetches:
  "fetches (snd (Type_init_all net cls calls)) \<le> fetches cls + 1"
proof (induction calls arbitrary: cls)
  case Nil
  then show ?case by simp
next
  case (Cons call calls)
  obtain v s where call: "call = (v, s)" by (cases call)
  let ?cls' = "snd (Type_init net cls v s)"
  have run: "snd (Type_init_all net cls (call # calls)) = snd (Type_init_all net ?cls' calls)"
    by (simp only: call Type_init_all_Cons)
  from Type_init_state [of net cls v s] show ?case
  proof
    assume "?cls' = cls"
    then show ?thesis using Cons.IH [of cls] run by simp
  next
    assume eq: "?cls' = snd (try_load_iana_mime_types net cls)"
    then have "iana_mime_types ?cls' \<noteq> None \<or> iana_failed ?cls'"
      using try_load_after [of net cls] by simp
    then have "snd (Type_init_all net ?cls' calls) = ?cls'"
      by (rule Type_init_all_settled)
    then show ?thesis
      using run eq try_load_fetches [of net cls] by simp
  qed
qed

subsection \<open>Accepted and rejected values\<close>

text \<open>
  C1: \<open>"image/png"\<close> is accepted and renders \<open>type="image/png"\<close>, both when the registry
  is loaded and lists it and when the registry is unavailable and the fallback set is
  used (it is in the fallback set); \<open>"image"\<close> fails with \<open>ValueError\<close>;
  \<open>"image/zzzz-not-a-real-type"\<close> is not in the fallback set and fails with \<open>ValueError\<close>
  under the fallback set and under every registry that does not list it. In general the
  constructor succeeds exactly when the first \<open>;\<close>-separated part of the stripped
  value contains a \<open>/\<close>, the stripped parts before and after the first \<open>/\<close> are
  non-empty and consist of the characters of the token pattern, and the lower-cased
  \<open>type/subtype\<close> is in the loaded registry or, when there is none and
  \<open>strict_registry\<close> is off, in the fallback set.
\<close>

theorem Type_init_spec:
  "((fst (try_load_iana_mime_types net cls) = Some known \<and> ''image/png'' \<in> known)
      \<or> (fst (try_load_iana_mime_types net cls) = None \<and> \<not> strict)
     \<longrightarrow> Type_init net cls ''image/png'' strict
           = (Inr (Type ''image/png''), snd (try_load_iana_mime_types net cls)))
   \<and> ''image/png'' \<in> FALLBACK_KNOWN
   \<and> render (Type ''image/png'') = ''type=\"image/png\"''
   \<and> Type_init net cls ''image'' strict = (Inl ValueError, cls)
   \<and> ''image/zzzz-not-a-real-type'' \<notin> FALLBACK_KNOWN
   \<and> ((fst (try_load_iana_mime_types net cls) = Some known \<and> ''image/zzzz-not-a-real-type'' \<notin> known)
        \<or> (fst (try_load_iana_mime_types net cls) = None \<and> \<not> strict)
       \<longrightarrow> fst (Type_init net cls ''image/zzzz-not-a-real-type'' strict) = Inl ValueError)
   \<and> ((\<exists>a. fst (Type_init net cls value strict) = Inr a) \<longleftrightarrow>
        (\<exists>main params t sub.
           map strip (split_sep CHR '';'' (strip value)) = main # params
           \<and> CHR ''/'' \<in> set main
           \<and> t = strip (fst (split_once CHR ''/'' main))
           \<and> sub = strip (snd (split_once CHR ''/'' main))
           \<and> t \<noteq> [] \<and> sub \<noteq> []
           \<and> TOKEN_RE_fullmatch t \<and> TOKEN_RE_fullmatch sub
           \<and> (case fst (try_load_iana_mime_types net cls) of
                Some registry \<Rightarrow> lower t @ ''/'' @ lower sub \<in> registry
              | None \<Rightarrow> \<not> strict \<and> lower t @ ''/'' @ lower sub \<in> FALLBACK_KNOWN)))
   \<and> (TOKEN_RE_fullmatch s \<longleftrightarrow>
        s \<noteq> [] \<and> (\<forall>c \<in> set s.
          c \<in> set ''ABCDEFGHIJKLMNOPQRSTUVWXYZabcdefghijklmnopqrstuvwxyz0123456789!#$&^_.+-''))"
proof -
  let ?reg = "fst (try_load_iana_mime_types net cls)"
  have png: "Type_init net cls ''image/png'' strict
      = (Inr (Type ''image/png''), snd (try_load_iana_mime_types net cls))"
    if "(?reg = Some known \<and> ''image/png'' \<in> known) \<or> (?reg = None \<and> \<not> strict)"
    using that FALLBACK_KNOWN_examples(1)
    by (auto simp: Type_init_candidate [OF Type_candidate_examples(1)])
  have r: "render (Type ''image/png'') = ''type=\"image/png\"''" by simp
  have image: "Type_init net cls ''image'' strict = (Inl ValueError, cls)"
    using Type_candidate_examples(2) by (rule Type_init_syntax_error)
  have zzzz: "fst (Type_init net cls ''image/zzzz-not-a-real-type'' strict) = Inl ValueError"
    if "(?reg = Some known \<and> ''image/zzzz-not-a-real-type'' \<notin> known) \<or> (?reg = None \<and> \<not> strict)"
    using that FALLBACK_KNOWN_examples(2)
    by (auto simp: Type_init_candidate [OF Type_candidate_examples(3)])
  have gen: "(\<exists>a. fst (Type_init net cls value strict) = Inr a) \<longleftrightarrow>
        (\<exists>main params t sub.
           map strip (split_sep CHR '';'' (strip value)) = main # params
           \<and> CHR ''/'' \<in> set main
           \<and> t = strip (fst (split_once CHR ''/'' main))
           \<and> sub = strip (snd (split_once CHR ''/'' main))
           \<and> t \<noteq> [] \<and> sub \<noteq> []
           \<and> TOKEN_RE_fullmatch t \<and> TOKEN_RE_fullmatch sub
           \<and> (case ?reg of
                Some registry \<Rightarrow> lower t @ ''/'' @ lower sub \<in> registry
              | None \<Rightarrow> \<not> strict \<and> lower t @ ''/'' @ lower sub \<in> FALLBACK_KNOWN))"
    (is "?lhs \<longleftrightarrow> ?rhs")
  proof
    assume ?lhs
    then obtain a where a: "fst (Type_init net cls value strict) = Inr a" ..
    show ?rhs
    proof (cases "Type_candidate value")
      case (Inl e)
      then show ?thesis using a by (simp add: Type_init_syntax_error)
    next
      case (Inr p)
      obtain candidate params where p: "p = (candidate, params)" by (cases p)
      from Inr p have c: "Type_candidate value = Inr (candidate, params)" by simp
      from c obtain main t sub where m:
        "map strip (split_sep CHR '';'' (strip value)) = main # params"
        "CHR ''/'' \<in> set main"
        "t = strip (fst (split_once CHR ''/'' main))"
        "sub = strip (snd (split_once CHR ''/'' main))"
        "t \<noteq> []" "sub \<noteq> []" "TOKEN_RE_fullmatch t" "TOKEN_RE_fullmatch sub"
        "candidate = lower t @ ''/'' @ lower sub"
        unfolding Type_candidate_Inr_iff by (elim exE conjE) (rule that)
      have "case ?reg of
                Some registry \<Rightarrow> lower t @ ''/'' @ lower sub \<in> registry
              | None \<Rightarrow> \<not> strict \<and> lower t @ ''/'' @ lower sub \<in> FALLBACK_KNOWN"
        using a unfolding m(9) [symmetric]
        by (simp add: Type_init_candidate [OF c] split: option.splits if_splits)
      with m(1-8) show ?thesis
        by - (rule exI [of _ main], rule exI [of _ params], rule exI [of _ t], rule exI [of _ sub],
          intro conjI, assumption+)
    qed
  next
    assume ?rhs
    then obtain main params t sub where m:
        "map strip (split_sep CHR '';'' (strip value)) = main # params"
        "CHR ''/'' \<in> set main"
        "t = strip (fst (split_once CHR ''/'' main))"
        "sub = strip (snd (split_once CHR ''/'' main))"
        "t \<noteq> []" "sub \<noteq> []" "TOKEN_RE_fullmatch t" "TOKEN_RE_fullmatch sub"
      and reg: "case ?reg of
                Some registry \<Rightarrow> lower t @ ''/'' @ lower sub \<in> registry
              | None \<Rightarrow> \<not> strict \<and> lower t @ ''/'' @ lower sub \<in> FALLBACK_KNOWN"
      by (elim exE conjE) (rule that)
    have ne: "strip value \<noteq> []"
    proof
      assume "strip value = []"
      moreover have "strip [] = []" by (simp add: strip_def)
      ultimately have "main = []" using m(1) by simp
      with m(2) show False by simp
    qed
    have c: "Type_candidate value = Inr (lower t @ ''/'' @ lower sub, params)"
      unfolding Type_candidate_Inr_iff
      using m ne
      by - (rule exI [of _ main], rule exI [of _ t], rule exI [of _ sub], intro conjI,
        (assumption | rule refl)+)
    show ?lhs
      using reg by (auto simp: Type_init_candidate [OF c] split: option.splits)
  qed
  have tok: "TOKEN_RE_fullmatch s \<longleftrightarrow>
        s \<noteq> [] \<and> (\<forall>c \<in> set s.
          c \<in> set ''ABCDEFGHIJKLMNOPQRSTUVWXYZabcdefghijklmnopqrstuvwxyz0123456789!#$&^_.+-'')"
    by (simp only: TOKEN_RE_fullmatch_def list_all_iff Ball_def token_char_def)
  show ?thesis
    using png FALLBACK_KNOWN_examples r image zzzz gen tok by blast
qed

theorem Type_init_spec_witness:
  "fst (try_load_iana_mime_types (\<lambda>n. FetchError) Type_cls_initial) = None
   \<and> Type_init (\<lambda>n. FetchError) Type_cls_initial ''image/png'' False
       = (Inr (Type ''image/png''), \<lparr>iana_mime_types = None, iana_failed = True, fetches = 1\<rparr>)
   \<and> fst (Type_init (\<lambda>n. FetchError) Type_cls_initial ''image/zzzz-not-a-real-type'' False)
       = Inl ValueError
   \<and> fst (try_load_iana_mime_types (\<lambda>n. FetchError)
        \<lparr>iana_mime_types = Some {''image/png'', ''text/css''}, iana_failed = False, fetches = 1\<rparr>)
       = Some {''image/png'', ''text/css''}
   \<and> ''image/png'' \<in> {''image/png'', ''text/css''}
   \<and> ''image/zzzz-not-a-real-type'' \<notin> {''image/png'', ''text/css''}
   \<and> Type_init (\<lambda>n. FetchError)
        \<lparr>iana_mime_types = Some {''image/png'', ''text/css''}, iana_failed = False, fetches = 1\<rparr>
        ''image/png'' True
       = (Inr (Type ''image/png''),
          \<lparr>iana_mime_types = Some {''image/png'', ''text/css''}, iana_failed = False, fetches = 1\<rparr>)
   \<and> fst (Type_init (\<lambda>n. FetchError)
        \<lparr>iana_mime_types = Some {''image/png'', ''text/css''}, iana_failed = False, fetches = 1\<rparr>
        ''image/zzzz-not-a-real-type'' True) = Inl ValueError
   \<and> TOKEN_RE_fullmatch ''svg+xml''"
proof -
  let ?net = "\<lambda>n::nat. FetchError"
  let ?known = "{''image/png'', ''text/css''}"
  let ?loaded = "\<lparr>iana_mime_types = Some ?known, iana_failed = False, fetches = 1\<rparr>"
  have l0: "try_load_iana_mime_types ?net Type_cls_initial
      = (None, \<lparr>iana_mime_types = None, iana_failed = True, fetches = 1\<rparr>)"
    by code_simp
  have l1: "try_load_iana_mime_types ?net ?loaded = (Some ?known, ?loaded)"
    by (simp add: try_load_iana_mime_types_def)
  have m1: "''image/png'' \<in> ?known" by simp
  have m2: "''image/zzzz-not-a-real-type'' \<notin> ?known" by simp
  have t: "''svg+xml'' \<noteq> [] \<and> (\<forall>c \<in> set ''svg+xml''.
      c \<in> set ''ABCDEFGHIJKLMNOPQRSTUVWXYZabcdefghijklmnopqrstuvwxyz0123456789!#$&^_.+-'')"
    by simp
  have a: "Type_init ?net Type_cls_initial ''image/png'' False
      = (Inr (Type ''image/png''), snd (try_load_iana_mime_types ?net Type_cls_initial))"
    using Type_init_spec [of ?net Type_cls_initial _ False] l0 by simp
  have b: "fst (Type_init ?net Type_cls_initial ''image/zzzz-not-a-real-type'' False) = Inl ValueError"
    using Type_init_spec [of ?net Type_cls_initial _ False] l0 by simp
  have c: "Type_init ?net ?loaded ''image/png'' True
      = (Inr (Type ''image/png''), snd (try_load_iana_mime_types ?net ?loaded))"
    using Type_init_spec [of ?net ?loaded ?known True] l1 m1 by simp
  have d: "fst (Type_init ?net ?loaded ''image/zzzz-not-a-real-type'' True) = Inl ValueError"
    using Type_init_spec [of ?net ?loaded ?known True] l1 m2 by simp
  have e: "TOKEN_RE_fullmatch ''svg+xml''"
    using Type_init_spec [of _ _ _ _ _ "''svg+xml''"] t by blast
  show ?thesis
    using a b c d e l0 l1 m1 m2 by simp
qed

subsection \<open>An unavailable registry\<close>

text \<open>
  C2: for a value that passes the syntactic checks, when the registry lookup returns
  nothing: under \<open>strict_registry\<close> the constructor raises \<open>RuntimeError\<close>, which is not
  the \<open>ValueError\<close> of a rejected value; without it, a candidate outside the fallback
  set is rejected with \<open>ValueError\<close> and a candidate inside it is accepted. The lookup
  returns nothing when an earlier failure is recorded, when the fetch fails, and when
  the fetched document yields no media type.
\<close>

theorem Type_init_registry_unavailable:
  "(Type_candidate value = Inr (candidate, params)
      \<and> fst (try_load_iana_mime_types net cls) = None \<and> strict
     \<longrightarrow> fst (Type_init net cls value strict) = Inl RuntimeError)
   \<and> RuntimeError \<noteq> ValueError
   \<and> (Type_candidate value = Inr (candidate, params)
        \<and> fst (try_load_iana_mime_types net cls) = None \<and> \<not> strict
        \<and> candidate \<notin> FALLBACK_KNOWN
       \<longrightarrow> fst (Type_init net cls value strict) = Inl ValueError)
   \<and> (Type_candidate value = Inr (candidate, params)
        \<and> fst (try_load_iana_mime_types net cls) = None \<and> \<not> strict
        \<and> candidate \<in> FALLBACK_KNOWN
       \<longrightarrow> (\<exists>a. fst (Type_init net cls value strict) = Inr a))
   \<and> (iana_mime_types cls = None
        \<and> (iana_failed cls \<or> net (fetches cls) = FetchError
            \<or> (net (fetches cls) = Document elems \<and> scan_elements elems None {} = {}))
       \<longrightarrow> fst (try_load_iana_mime_types net cls) = None)"
proof -
  have strict: "fst (Type_init net cls value strict) = Inl RuntimeError"
    if "Type_candidate value = Inr (candidate, params)
      \<and> fst (try_load_iana_mime_types net cls) = None \<and> strict"
    using that by (simp add: Type_init_candidate)
  have reject: "fst (Type_init net cls value strict) = Inl ValueError"
    if "Type_candidate value = Inr (candidate, params)
        \<and> fst (try_load_iana_mime_types net cls) = None \<and> \<not> strict
        \<and> candidate \<notin> FALLBACK_KNOWN"
    using that by (simp add: Type_init_candidate)
  have accept: "\<exists>a. fst (Type_init net cls value strict) = Inr a"
    if "Type_candidate value = Inr (candidate, params)
        \<and> fst (try_load_iana_mime_types net cls) = None \<and> \<not> strict
        \<and> candidate \<in> FALLBACK_KNOWN"
    using that by (simp add: Type_init_candidate)
  have unavailable: "fst (try_load_iana_mime_types net cls) = None"
    if "iana_mime_types cls = None
        \<and> (iana_failed cls \<or> net (fetches cls) = FetchError
            \<or> (net (fetches cls) = Document elems \<and> scan_elements elems None {} = {}))"
  proof (cases "iana_failed cls")
    case True
    with that show ?thesis by (simp add: try_load_settled)
  next
    case False
    with that show ?thesis by (auto simp: try_load_fetch)
  qed
  have "RuntimeError \<noteq> ValueError" by simp
  with strict reject accept unavailable show ?thesis by blast
qed

theorem Type_init_registry_unavailable_witness:
  "Type_candidate ''text/html'' = Inr (''text/html'', [])
   \<and> fst (try_load_iana_mime_types (\<lambda>n. FetchError) Type_cls_initial) = None
   \<and> fst (Type_init (\<lambda>n. FetchError) Type_cls_initial ''text/html'' True) = Inl RuntimeError
   \<and> ''text/html'' \<notin> FALLBACK_KNOWN
   \<and> fst (Type_init (\<lambda>n. FetchError) Type_cls_initial ''text/html'' False) = Inl ValueError
   \<and> Type_candidate ''Text/CSS'' = Inr (''text/css'', [])
   \<and> ''text/css'' \<in> FALLBACK_KNOWN
   \<and> (\<exists>a. fst (Type_init (\<lambda>n. FetchError) Type_cls_initial ''Text/CSS'' False) = Inr a)
   \<and> iana_mime_types Type_cls_initial = None
   \<and> fst (try_load_iana_mime_types (\<lambda>n. Document []) Type_cls_initial) = None"
proof -
  let ?net = "\<lambda>n::nat. FetchError"
  have c1: "Type_candidate ''text/html'' = Inr (''text/html'', [])" by code_simp
  have c2: "Type_candidate ''Text/CSS'' = Inr (''text/css'', [])" by code_simp
  have f1: "''text/html'' \<notin> FALLBACK_KNOWN" by (simp add: FALLBACK_KNOWN_def)
  have f2: "''text/css'' \<in> FALLBACK_KNOWN" by (simp add: FALLBACK_KNOWN_def)
  have i: "iana_mime_types Type_cls_initial = None" by (simp add: Type_cls_initial_def)
  have n: "?net (fetches Type_cls_initial) = FetchError" by simp
  have d: "(\<lambda>n::nat. Document []) (fetches Type_cls_initial) = Document []
      \<and> scan_elements [] None {} = {}" by simp
  have l: "fst (try_load_iana_mime_types ?net Type_cls_initial) = None"
    using Type_init_registry_unavailable [of _ _ _ ?net Type_cls_initial] i n by blast
  have l': "fst (try_load_iana_mime_types (\<lambda>n. Document []) Type_cls_initial) = None"
    using Type_init_registry_unavailable [of _ _ _ "\<lambda>n. Document []" Type_cls_initial _ "[]"] i d
    by blast
  have a: "fst (Type_init ?net Type_cls_initial ''text/html'' True) = Inl RuntimeError"
    using Type_init_registry_unavailable [of "''text/html''" "''text/html''" "[]" ?net Type_cls_initial True]
      c1 l by blast
  have b: "fst (Type_init ?net Type_cls_initial ''text/html'' False) = Inl ValueError"
    using Type_init_registry_unavailable [of "''text/html''" "''text/html''" "[]" ?net Type_cls_initial False]
      c1 l f1 by blast
  have c: "\<exists>a. fst (Type_init ?net Type_cls_initial ''Text/CSS'' False) = Inr a"
    using Type_init_registry_unavailable [of "''Text/CSS''" "''text/css''" "[]" ?net Type_cls_initial False]
      c2 l f2 by blast
  from c1 c2 f1 f2 i l l' a b c show ?thesis by blast
qed

subsection \<open>The registry is fetched at most once\<close>

text \<open>
  C3: after a lookup the class state holds a registry or the failure flag; from such a
  state no constructor call changes the class state, so none fetches again; over any
  run of constructor calls from the initial state \<open>urlopen\<close> is called at most once; once
  the failure flag is set with no registry, every lookup returns nothing and leaves the
  state as it is, whatever the network would answer; a fetch that fails, and a fetch whose
  document yields no media type, set the failure flag.
\<close>

theorem registry_fetched_at_most_once:
  "(iana_mime_types (snd (try_load_iana_mime_types net cls)) \<noteq> None
      \<or> iana_failed (snd (try_load_iana_mime_types net cls)))
   \<and> (iana_mime_types cls \<noteq> None \<or> iana_failed cls
       \<longrightarrow> snd (Type_init net cls value strict) = cls
           \<and> snd (Type_init_all net cls calls) = cls)
   \<and> fetches (snd (Type_init_all net Type_cls_initial calls)) \<le> 1
   \<and> fetches (snd (Type_init_all net cls calls)) \<le> fetches cls + 1
   \<and> (iana_mime_types cls = None \<and> iana_failed cls
       \<longrightarrow> try_load_iana_mime_types net cls = (None, cls))
   \<and> (iana_mime_types cls = None \<and> \<not> iana_failed cls \<and> net (fetches cls) = FetchError
       \<longrightarrow> try_load_iana_mime_types net cls
           = (None, cls\<lparr>fetches := fetches cls + 1, iana_failed := True\<rparr>))
   \<and> (iana_mime_types cls = None \<and> \<not> iana_failed cls
        \<and> net (fetches cls) = Document elems \<and> scan_elements elems None {} = {}
       \<longrightarrow> try_load_iana_mime_types net cls
           = (None, cls\<lparr>fetches := fetches cls + 1, iana_failed := True\<rparr>))
   \<and> (iana_mime_types cls = None \<and> \<not> iana_failed cls
        \<and> net (fetches cls) = Document elems \<and> scan_elements elems None {} \<noteq> {}
       \<longrightarrow> try_load_iana_mime_types net cls
           = (Some (scan_elements elems None {}),
              cls\<lparr>fetches := fetches cls + 1,
                  iana_mime_types := Some (scan_elements elems None {})\<rparr>))"
proof -
  have settled: "snd (Type_init net cls value strict) = cls \<and> snd (Type_init_all net cls calls) = cls"
    if "iana_mime_types cls \<noteq> None \<or> iana_failed cls"
    using that by (simp add: Type_init_settled Type_init_all_settled)
  have once: "fetches (snd (Type_init_all net Type_cls_initial calls)) \<le> 1"
    using Type_init_all_fetches [of net Type_cls_initial calls]
    by (simp add: Type_cls_initial_def)
  have failed: "try_load_iana_mime_types net cls = (None, cls)"
    if "iana_mime_types cls = None \<and> iana_failed cls"
    using that try_load_settled [of cls net] by simp
  have error: "try_load_iana_mime_types net cls
      = (None, cls\<lparr>fetches := fetches cls + 1, iana_failed := True\<rparr>)"
    if "iana_mime_types cls = None \<and> \<not> iana_failed cls \<and> net (fetches cls) = FetchError"
    using that by (simp add: try_load_fetch)
  have empty: "try_load_iana_mime_types net cls
      = (None, cls\<lparr>fetches := fetches cls + 1, iana_failed := True\<rparr>)"
    if "iana_mime_types cls = None \<and> \<not> iana_failed cls
        \<and> net (fetches cls) = Document elems \<and> scan_elements elems None {} = {}"
    using that by (simp add: try_load_fetch)
  have loaded: "try_load_iana_mime_types net cls
      = (Some (scan_elements elems None {}),
         cls\<lparr>fetches := fetches cls + 1, iana_mime_types := Some (scan_elements elems None {})\<rparr>)"
    if "iana_mime_types cls = None \<and> \<not> iana_failed cls
        \<and> net (fetches cls) = Document elems \<and> scan_elements elems None {} \<noteq> {}"
    using that by (simp add: try_load_fetch)
  show ?thesis
    using try_load_after [of net cls] settled once Type_init_all_fetches [of net cls calls]
      failed error empty loaded
    by blast
qed

theorem registry_fetched_at_most_once_witness:
  "iana_mime_types \<lparr>iana_mime_types = None, iana_failed = True, fetches = 1\<rparr> = None
   \<and> iana_failed \<lparr>iana_mime_types = None, iana_failed = True, fetches = 1\<rparr>
   \<and> try_load_iana_mime_types (\<lambda>n. Document [])
        \<lparr>iana_mime_types = None, iana_failed = True, fetches = 1\<rparr>
       = (None, \<lparr>iana_mime_types = None, iana_failed = True, fetches = 1\<rparr>)
   \<and> snd (Type_init (\<lambda>n. Document [])
        \<lparr>iana_mime_types = None, iana_failed = True, fetches = 1\<rparr> ''image/png'' True)
       = \<lparr>iana_mime_types = None, iana_failed = True, fetches = 1\<rparr>
   \<and> fetches (snd (Type_init_all (\<lambda>n. FetchError) Type_cls_initial
        [(''image/png'', False), (''text/html'', True), (''image/png'', False)])) \<le> 1
   \<and> iana_mime_types Type_cls_initial = None \<and> \<not> iana_failed Type_cls_initial
   \<and> try_load_iana_mime_types (\<lambda>n. FetchError) Type_cls_initial
       = (None, \<lparr>iana_mime_types = None, iana_failed = True, fetches = 1\<rparr>)
   \<and> scan_elements [] None {} = {}
   \<and> try_load_iana_mime_types (\<lambda>n. Document []) Type_cls_initial
       = (None, \<lparr>iana_mime_types = None, iana_failed = True, fetches = 1\<rparr>)"
proof -
  let ?failed = "\<lparr>iana_mime_types = None, iana_failed = True, fetches = 1\<rparr>"
  let ?calls = "[(''image/png'', False), (''text/html'', True), (''image/png'', False)]"
  have f: "iana_mime_types ?failed = None \<and> iana_failed ?failed" by simp
  have i: "iana_mime_types Type_cls_initial = None \<and> \<not> iana_failed Type_cls_initial"
    by (simp add: Type_cls_initial_def)
  have u: "Type_cls_initial\<lparr>fetches := fetches Type_cls_initial + 1, iana_failed := True\<rparr> = ?failed"
    by (simp add: Type_cls_initial_def)
  have s: "scan_elements [] None {} = {}" by simp
  have a: "try_load_iana_mime_types (\<lambda>n. Document []) ?failed = (None, ?failed)"
    using registry_fetched_at_most_once [of "\<lambda>n. Document []" ?failed] f by blast
  have b: "snd (Type_init (\<lambda>n. Document []) ?failed ''image/png'' True) = ?failed"
    using registry_fetched_at_most_once [of "\<lambda>n. Document []" ?failed "''image/png''" True] f
    by blast
  have c: "fetches (snd (Type_init_all (\<lambda>n. FetchError) Type_cls_initial ?calls)) \<le> 1"
    using registry_fetched_at_most_once [of "\<lambda>n. FetchError" Type_cls_initial _ _ ?calls]
    by blast
  have "try_load_iana_mime_types (\<lambda>n. FetchError) Type_cls_initial
      = (None, Type_cls_initial\<lparr>fetches := fetches Type_cls_initial + 1, iana_failed := True\<rparr>)"
    using registry_fetched_at_most_once [of "\<lambda>n. FetchError" Type_cls_initial] i by blast
  then have d: "try_load_iana_mime_types (\<lambda>n. FetchError) Type_cls_initial = (None, ?failed)"
    by (simp only: u)
  have "try_load_iana_mime_types (\<lambda>n. Document []) Type_cls_initial
      = (None, Type_cls_initial\<lparr>fetches := fetches Type_cls_initial + 1, iana_failed := True\<rparr>)"
    using registry_fetched_at_most_once [of "\<lambda>n. Document []" Type_cls_initial _ _ _ "[]"] i s
    by blast
  then have e: "try_load_iana_mime_types (\<lambda>n. Document []) Type_cls_initial = (None, ?failed)"
    by (simp only: u)
  from f i s a b c d e show ?thesis by blast
qed

subsection \<open>A value that ends with the separator\<close>

text \<open>
  C8: the value \<open>"image/png;"\<close> has one parameter, the empty string. Whenever the
  constructor accepts it, the stored value is \<open>"image/png; "\<close>, which ends with a
  space, and it renders \<open>type="image/png; "\<close>.
\<close>

theorem Type_init_trailing_separator:
  "Type_init net cls ''image/png;'' strict =
     (case fst (try_load_iana_mime_types net cls) of
        Some known \<Rightarrow>
          if ''image/png'' \<notin> known then Inl ValueError else Inr (Type ''image/png; '')
      | None \<Rightarrow> if strict then Inl RuntimeError else Inr (Type ''image/png; ''),
      snd (try_load_iana_mime_types net cls))
   \<and> Type_init net \<lparr>iana_mime_types = None, iana_failed = True, fetches = 1\<rparr> ''image/png;'' False
       = (Inr (Type ''image/png; ''), \<lparr>iana_mime_types = None, iana_failed = True, fetches = 1\<rparr>)
   \<and> render (Type ''image/png; '') = ''type=\"image/png; \"''
   \<and> is_space (last ''image/png; '')"
proof -
  let ?failed = "\<lparr>iana_mime_types = None, iana_failed = True, fetches = 1\<rparr>"
  have g: "Type_init net cls ''image/png;'' strict =
     (case fst (try_load_iana_mime_types net cls) of
        Some known \<Rightarrow>
          if ''image/png'' \<notin> known then Inl ValueError else Inr (Type ''image/png; '')
      | None \<Rightarrow> if strict then Inl RuntimeError else Inr (Type ''image/png; ''),
      snd (try_load_iana_mime_types net cls))" for net cls strict
    using FALLBACK_KNOWN_examples(1)
    by (simp add: Type_init_candidate [OF Type_candidate_examples(4)] split: option.splits)
  have l: "try_load_iana_mime_types net ?failed = (None, ?failed)"
    by (simp add: try_load_settled)
  have c: "Type_init net ?failed ''image/png;'' False = (Inr (Type ''image/png; ''), ?failed)"
    unfolding g l by simp
  have r: "render (Type ''image/png; '') = ''type=\"image/png; \"''" by simp
  have s: "is_space (last ''image/png; '')" by (simp add: is_space_def)
  from g c r s show ?thesis by blast
qed

section \<open>Whitespace in raw values\<close>

lemma split_from_no_space:
  "\<forall>c \<in> set s. \<not> is_space c \<Longrightarrow> split_from cur s = (if cur @ s = [] then [] else [cur @ s])"
  by (induction s arbitrary: cur) simp_all

lemma is_space_lower_char: "is_space c \<Longrightarrow> lower_char c = c"
  by (auto simp: is_space_def lower_char_def Let_def)

lemma lower_any_no_space:
  assumes "lower s = ''any''"
  shows "\<forall>c \<in> set s. \<not> is_space c"
proof
  fix c
  assume c: "c \<in> set s"
  show "\<not> is_space c"
  proof
    assume sp: "is_space c"
    then have "lower_char c = c" by (rule is_space_lower_char)
    moreover have "lower_char c \<in> set (lower s)" using c by (simp add: lower_def)
    ultimately have "c \<in> set ''any''" using assms by simp
    then have "\<not> is_space c" by (auto simp: is_space_def)
    with sp show False by simp
  qed
qed

lemma lower_any_one_token:
  assumes "lower (strip value) = ''any''"
  shows "split value = [strip value]"
proof -
  from assms have ne: "strip value \<noteq> []" by (auto simp: lower_def)
  have "split (strip value) = [strip value]"
    using lower_any_no_space [OF assms] ne by (simp add: split_def split_from_no_space)
  then show ?thesis by (simp add: split_strip)
qed

lemma whitespace_examples:
  "Rel_init (''icon'' @ [CHR 0x09] @ ''  Preload '') = Inr (Rel ''icon preload'')"
  "Sizes_init (''16x16'' @ [CHR 0x09] @ ''   32x32'') = Inr (Sizes ''16x16 32x32'')"
  by code_simp+

text \<open>
  C10: the constructors of \<open>Rel\<close>, \<open>Sizes\<close> and \<open>Type\<close> treat a value of whitespace
  only as they treat the empty string: all fail with \<open>ValueError\<close> (and \<open>Type\<close> leaves
  the class state alone). A value that \<open>Rel\<close> accepts is stored and rendered as its
  lower-cased tokens joined with single spaces, and a value of two or more tokens that
  \<open>Sizes\<close> accepts is stored and rendered as its tokens joined with single spaces; no
  token is empty or contains whitespace, so a tab or a run of spaces between two tokens
  becomes one space.
\<close>

theorem whitespace_is_stripped:
  "((\<forall>c \<in> set value. is_space c)
      \<longrightarrow> Rel_init value = Inl ValueError \<and> Rel_init value = Rel_init []
        \<and> Sizes_init value = Inl ValueError \<and> Sizes_init value = Sizes_init []
        \<and> Type_init net cls value strict = (Inl ValueError, cls)
        \<and> Type_init net cls value strict = Type_init net cls [] strict)
   \<and> (Rel_init value = Inr a
        \<longrightarrow> a = Rel (join '' '' (map lower (split value)))
          \<and> render a = ''rel=\"'' @ join '' '' (map lower (split value)) @ ''\"'')
   \<and> (Sizes_init value = Inr a \<and> 2 \<le> length (split value)
        \<longrightarrow> a = Sizes (join '' '' (split value))
          \<and> render a = ''sizes=\"'' @ join '' '' (split value) @ ''\"'')
   \<and> (token \<in> set (split value) \<longrightarrow> token \<noteq> [] \<and> (\<forall>c \<in> set token. \<not> is_space c))
   \<and> Rel_init (''icon'' @ [CHR 0x09] @ ''  Preload '') = Inr (Rel ''icon preload'')
   \<and> Sizes_init (''16x16'' @ [CHR 0x09] @ ''   32x32'') = Inr (Sizes ''16x16 32x32'')"
proof -
  have blank: "Rel_init value = Inl ValueError \<and> Rel_init value = Rel_init []
        \<and> Sizes_init value = Inl ValueError \<and> Sizes_init value = Sizes_init []
        \<and> Type_init net cls value strict = (Inl ValueError, cls)
        \<and> Type_init net cls value strict = Type_init net cls [] strict"
    if w: "\<forall>c \<in> set value. is_space c"
  proof -
    have "Type_init net cls v strict = (Inl ValueError, cls)" if "\<forall>c \<in> set v. is_space c" for v
      using Type_candidate_spaces [OF that] by (rule Type_init_syntax_error)
    from this [of "value"] this [of "[]"] w show ?thesis
      by (simp add: Rel_init_eq Sizes_init_eq)
  qed
  have rel: "a = Rel (join '' '' (map lower (split value)))
          \<and> render a = ''rel=\"'' @ join '' '' (map lower (split value)) @ ''\"''"
    if "Rel_init value = Inr a"
    using that by (auto simp: Rel_init_eq simp del: distinct_map split: if_splits)
  have sizes: "a = Sizes (join '' '' (split value))
          \<and> render a = ''sizes=\"'' @ join '' '' (split value) @ ''\"''"
    if "Sizes_init value = Inr a \<and> 2 \<le> length (split value)"
  proof -
    have "lower (strip value) \<noteq> ''any''"
    proof
      assume "lower (strip value) = ''any''"
      then have "split value = [strip value]" by (rule lower_any_one_token)
      with that show False by simp
    qed
    with that show ?thesis by (auto simp: Sizes_init_eq split: if_splits)
  qed
  have tokens: "token \<noteq> [] \<and> (\<forall>c \<in> set token. \<not> is_space c)" if "token \<in> set (split value)"
    using that by (rule split_tokens)
  from blank rel sizes tokens whitespace_examples show ?thesis by blast
qed

theorem whitespace_is_stripped_witness:
  "\<not> (\<exists>c \<in> set ([CHR 0x09] @ ''  ''). \<not> is_space c)
   \<and> Rel_init ([CHR 0x09] @ ''  '') = Inl ValueError
   \<and> Sizes_init ([CHR 0x09] @ ''  '') = Inl ValueError
   \<and> Type_init (\<lambda>n. FetchError) Type_cls_initial ([CHR 0x09] @ ''  '') False
       = (Inl ValueError, Type_cls_initial)
   \<and> Rel_init (''a'' @ [CHR 0x09] @ '' B'') = Inr (Rel ''a b'')
   \<and> render (Rel ''a b'') = ''rel=\"a b\"''
   \<and> Sizes_init (''1x1'' @ [CHR 0x09] @ '' 2x2'') = Inr (Sizes ''1x1 2x2'')
   \<and> 2 \<le> length (split (''1x1'' @ [CHR 0x09] @ '' 2x2''))
   \<and> render (Sizes ''1x1 2x2'') = ''sizes=\"1x1 2x2\"''"
proof -
  let ?blank = "[CHR 0x09] @ ''  ''"
  let ?rel = "''a'' @ [CHR 0x09] @ '' B''"
  let ?sizes = "''1x1'' @ [CHR 0x09] @ '' 2x2''"
  have w: "\<forall>c \<in> set ?blank. is_space c" by code_simp
  have r: "Rel_init ?rel = Inr (Rel ''a b'')" by code_simp
  have s: "Sizes_init ?sizes = Inr (Sizes ''1x1 2x2'') \<and> 2 \<le> length (split ?sizes)" by code_simp
  have jr: "join '' '' (map lower (split ?rel)) = ''a b''" by code_simp
  have js: "join '' '' (split ?sizes) = ''1x1 2x2''" by code_simp
  have a: "Rel_init ?blank = Inl ValueError \<and> Sizes_init ?blank = Inl ValueError
      \<and> Type_init (\<lambda>n. FetchError) Type_cls_initial ?blank False = (Inl ValueError, Type_cls_initial)"
    using whitespace_is_stripped [of ?blank "\<lambda>n. FetchError" Type_cls_initial False] w by blast
  have "render (Rel ''a b'') = ''rel=\"'' @ join '' '' (map lower (split ?rel)) @ ''\"''"
    using whitespace_is_stripped [of ?rel _ _ _ "Rel ''a b''"] r by blast
  then have b: "render (Rel ''a b'') = ''rel=\"a b\"''" by (simp only: jr) simp
  have "render (Sizes ''1x1 2x2'') = ''sizes=\"'' @ join '' '' (split ?sizes) @ ''\"''"
    using whitespace_is_stripped [of ?sizes _ _ _ "Sizes ''1x1 2x2''"] s by blast
  then have c: "render (Sizes ''1x1 2x2'') = ''sizes=\"1x1 2x2\"''" by (simp only: js) simp
  from w r s a b c show ?thesis by blast
qed

end
